theory Spec2Isabelle
  imports Complex_Main "HOL-Library.Sublist"
begin

section \<open>The sponsor relay worker (src/index.ts)\<close>

text \<open>
  A shallow embedding of the Cloudflare worker of \<^verbatim>\<open>src/index.ts\<close>: the in-memory
  fixed-window rate limiter \<^verbatim>\<open>checkRateLimit\<close> and the \<^verbatim>\<open>fetch\<close> handler with
  its \<^verbatim>\<open>/relay\<close> pipeline.

  What the handler does beyond computing a response is made explicit:
  \<^item> the module-level \<^verbatim>\<open>rateLimitMap\<close> is a map passed in and returned;
  \<^item> \<^verbatim>\<open>Date.now()\<close> and \<^verbatim>\<open>crypto.randomUUID()\<close> are arguments;
  \<^item> the functions of \<^verbatim>\<open>@stacks/transactions\<close> are arguments, returning either the
    value thrown or the value returned;
  \<^item> every call of such a function, of the rate limiter and of the logging service is
    recorded, in program order, in a list of events;
  \<^item> a JavaScript exception is a value of type \<open>js_exn\<close>; the \<^verbatim>\<open>try\<close>/\<^verbatim>\<open>catch\<close>
    blocks of the source are the \<open>Inl\<close> branches of the model.
\<close>

subsection \<open>JavaScript values\<close>

text \<open>
  A thrown value: an \<^verbatim>\<open>Error\<close> object with its message, or any other value. The source
  reads a thrown value only through
  \<^verbatim>\<open>e instanceof Error ? e.message : "Unknown error"\<close>.
\<close>

datatype js_exn = JsError string | JsOther

fun exn_message :: "js_exn \<Rightarrow> string" where
  "exn_message (JsError msg) = msg"
| "exn_message JsOther = ''Unknown error''"

text \<open>
  The value \<^verbatim>\<open>request.json()\<close> resolves to. An object is the list of its own
  properties (keys distinct, as in a JavaScript object); a number is the value of the
  parsed double.
\<close>

datatype json =
    JNull
  | JBool bool
  | JNum rat
  | JStr string
  | JArr "json list"
  | JObj "(string \<times> json) list"

text \<open>JavaScript truthiness, as \<^verbatim>\<open>!v\<close> and \<^verbatim>\<open>if (v)\<close> test it.\<close>

fun truthy :: "json \<Rightarrow> bool" where
  "truthy JNull = False"
| "truthy (JBool b) = b"
| "truthy (JNum r) = (r \<noteq> 0)"
| "truthy (JStr s) = (s \<noteq> [])"
| "truthy (JArr xs) = True"
| "truthy (JObj kvs) = True"

text \<open>An optional string field (\<^verbatim>\<open>f?: string\<close>): \<open>None\<close> is \<^verbatim>\<open>undefined\<close>.\<close>

fun truthy_str :: "string option \<Rightarrow> bool" where
  "truthy_str None = False"
| "truthy_str (Some s) = (s \<noteq> [])"

text \<open>\<^verbatim>\<open>a || b\<close> on optional strings.\<close>

definition js_or :: "string option \<Rightarrow> string option \<Rightarrow> string option" where
  "js_or a b = (if truthy_str a then a else b)"

text \<open>
  \<^verbatim>\<open>body.transaction\<close>: reading a property of \<^verbatim>\<open>null\<close> throws a TypeError; a
  primitive or an array has no such property; an object has it when it is among its own
  properties (\<^verbatim>\<open>Object.prototype\<close> has none of this name).
\<close>

definition null_property_error :: js_exn where
  "null_property_error =
     JsError ''Cannot read properties of null (reading 'transaction')''"

definition not_a_function_error :: js_exn where
  "not_a_function_error = JsError ''body.transaction.startsWith is not a function''"

fun get_transaction :: "json \<Rightarrow> js_exn + json option" where
  "get_transaction JNull = Inl null_property_error"
| "get_transaction (JObj kvs) = Inr (map_of kvs ''transaction'')"
| "get_transaction v = Inr None"

text \<open>\<^verbatim>\<open>s.startsWith(p)\<close> on strings.\<close>

definition startsWith :: "string \<Rightarrow> string \<Rightarrow> bool" where
  "startsWith s p = (take (length p) s = p)"

text \<open>\<^verbatim>\<open>Buffer.from(x).toString("hex")\<close>: two lower-case hex digits for each byte.\<close>

definition hex_digit :: "nat \<Rightarrow> char" where
  "hex_digit n = ''0123456789abcdef'' ! (n mod 16)"

definition hex_byte :: "char \<Rightarrow> string" where
  "hex_byte c = [hex_digit (of_char c div 16), hex_digit (of_char c mod 16)]"

definition to_hex :: "string \<Rightarrow> string" where
  "to_hex bs = concat (map hex_byte bs)"

subsection \<open>The rate limiter\<close>

record rate_entry =
  count :: int
  resetAt :: int

type_synonym rate_map = "string \<rightharpoonup> rate_entry"

definition RATE_LIMIT :: int where
  "RATE_LIMIT = 10"

definition RATE_WINDOW_MS :: int where
  "RATE_WINDOW_MS = 60 * 1000"

text \<open>
  \<^verbatim>\<open>checkRateLimit(address)\<close>, with the clock reading \<open>now\<close> and the map made
  explicit. \<^verbatim>\<open>entry.count++\<close> changes the object stored in the map, so the model
  stores the updated entry.
\<close>

definition checkRateLimit :: "int \<Rightarrow> string \<Rightarrow> rate_map \<Rightarrow> bool \<times> rate_map" where
  "checkRateLimit now address m =
     (case m address of
        None \<Rightarrow> (True, m(address \<mapsto> \<lparr>count = 1, resetAt = now + RATE_WINDOW_MS\<rparr>))
      | Some entry \<Rightarrow>
          if now > resetAt entry
          then (True, m(address \<mapsto> \<lparr>count = 1, resetAt = now + RATE_WINDOW_MS\<rparr>))
          else if count entry \<ge> RATE_LIMIT then (False, m)
          else (True, m(address \<mapsto> entry\<lparr>count := count entry + 1\<rparr>)))"

text \<open>
  A sequence of calls of the rate limiter, each with its clock reading and its key, on
  the same map: the answers in order, and the map left behind.
\<close>

fun run_calls :: "(int \<times> string) list \<Rightarrow> rate_map \<Rightarrow> bool list \<times> rate_map" where
  "run_calls [] m = ([], m)"
| "run_calls ((now, address) # cs) m =
     (case checkRateLimit now address m of
        (ok, m') \<Rightarrow> (case run_calls cs m' of (oks, m'') \<Rightarrow> (ok # oks, m'')))"

subsection \<open>Transactions, configuration and the external library\<close>

datatype auth_type = Standard | Sponsored

text \<open>
  What the handler reads of a deserialized transaction: \<^verbatim>\<open>auth.authType\<close> and
  \<^verbatim>\<open>auth.spendingCondition.signer\<close>; the rest is opaque to it.
\<close>

record stacks_tx =
  authType :: auth_type
  signer :: string
  rest :: string

datatype network = STACKS_MAINNET | STACKS_TESTNET

text \<open>\<^verbatim>\<open>SPONSOR_PRIVATE_KEY\<close> is a secret and may be unset (\<open>None\<close>).\<close>

record env =
  STACKS_NETWORK :: string
  SPONSOR_PRIVATE_KEY :: "string option"

definition getNetwork :: "env \<Rightarrow> network" where
  "getNetwork e = (if STACKS_NETWORK e = ''mainnet'' then STACKS_MAINNET else STACKS_TESTNET)"

text \<open>
  The value \<^verbatim>\<open>broadcastTransaction\<close> resolves to. The source only casts it to an
  object with three optional string fields (line 289) and checks nothing: besides such
  an object the value may be \<^verbatim>\<open>null\<close> or \<^verbatim>\<open>undefined\<close>, and reading a field of these
  throws a TypeError.
\<close>

record broadcast_result =
  txid :: "string option"
  error :: "string option"
  reason :: "string option"

datatype broadcast_value =
    BroadcastNull
  | BroadcastUndefined
  | BroadcastObject broadcast_result

definition null_result_error :: js_exn where
  "null_result_error = JsError ''Cannot read properties of null (reading 'error')''"

definition undefined_result_error :: js_exn where
  "undefined_result_error =
     JsError ''Cannot read properties of undefined (reading 'error')''"

text \<open>The three functions imported from \<^verbatim>\<open>@stacks/transactions\<close>.\<close>

record stacks_lib =
  deserializeTransaction :: "string \<Rightarrow> js_exn + stacks_tx"
  sponsorTransaction :: "stacks_tx \<Rightarrow> string \<Rightarrow> network \<Rightarrow> js_exn + stacks_tx"
  broadcastTransaction :: "stacks_tx \<Rightarrow> network \<Rightarrow> js_exn + broadcast_value"

subsection \<open>Requests, responses and events\<close>

text \<open>
  A request: its method (\<^verbatim>\<open>request.method\<close>), the path of its URL, and what \<^verbatim>\<open>request.json()\<close> does
  (throws, or resolves to a value).
\<close>

record request =
  http_method :: string
  pathname :: string
  json_body :: "js_exn + json"

datatype resp_body =
    NoBody
  | TextBody string
  | JsonBody "(string \<times> string) list"

record response =
  status :: nat
  headers :: "(string \<times> string) list"
  body :: resp_body

datatype log_level = Info | Warn | Error

datatype log_value = LStr string | LOptStr "string option" | LAuth auth_type

datatype event =
    Log log_level string "(string \<times> log_value) list"
  | CallDeserialize string
  | CallRateLimit string
  | CallSponsor stacks_tx string network
  | CallBroadcast stacks_tx network

definition corsHeaders :: "(string \<times> string) list" where
  "corsHeaders =
     [(''Access-Control-Allow-Origin'', ''*''),
      (''Access-Control-Allow-Methods'', ''GET, POST, OPTIONS''),
      (''Access-Control-Allow-Headers'', ''Content-Type'')]"

text \<open>
  \<^verbatim>\<open>JSON.stringify\<close> of an object whose fields are strings or \<^verbatim>\<open>undefined\<close>: a
  field that is \<^verbatim>\<open>undefined\<close> is left out.
\<close>

fun stringify :: "(string \<times> string option) list \<Rightarrow> (string \<times> string) list" where
  "stringify [] = []"
| "stringify ((k, None) # kvs) = stringify kvs"
| "stringify ((k, Some v) # kvs) = (k, v) # stringify kvs"

definition json_response :: "nat \<Rightarrow> (string \<times> string option) list \<Rightarrow> response" where
  "json_response st fs =
     \<lparr>status = st,
      headers = (''Content-Type'', ''application/json'') # corsHeaders,
      body = JsonBody (stringify fs)\<rparr>"

subsection \<open>The handler\<close>

type_synonym outcome = "response \<times> event list \<times> rate_map"

text \<open>
  The outermost \<^verbatim>\<open>catch\<close> of the \<^verbatim>\<open>/relay\<close> branch (lines 338-352): \<open>evs\<close> are the
  events so far, \<open>m\<close> the rate-limit map as it stands.
\<close>

definition catch_all :: "string \<Rightarrow> js_exn \<Rightarrow> event list \<Rightarrow> rate_map \<Rightarrow> outcome" where
  "catch_all requestId e evs m =
     (json_response 500
        [(''error'', Some ''Internal server error''), (''details'', Some (exn_message e))],
      evs @ [Log Error ''Unexpected error''
               [(''request_id'', LStr requestId), (''error'', LStr (exn_message e))]],
      m)"

text \<open>Lines 306-337: what is made of the object the broadcast call resolved to.\<close>

definition broadcast_result_response ::
  "string \<Rightarrow> string \<Rightarrow> broadcast_result \<Rightarrow> event list \<Rightarrow> rate_map \<Rightarrow> outcome" where
  "broadcast_result_response requestId senderHex broadcastResult evs m =
     (if truthy_str (error broadcastResult)
      then (json_response 400
              [(''error'', Some ''Broadcast rejected''),
               (''details'', js_or (reason broadcastResult) (error broadcastResult))],
            evs @ [Log Error ''Broadcast rejected''
                     [(''request_id'', LStr requestId),
                      (''error'', LOptStr (error broadcastResult)),
                      (''reason'', LOptStr (reason broadcastResult))]],
            m)
      else (json_response 200 [(''txid'', txid broadcastResult)],
            evs @ [Log Info ''Transaction sponsored and broadcast''
                     [(''request_id'', LStr requestId),
                      (''txid'', LOptStr (txid broadcastResult)),
                      (''sender'', LStr senderHex)]],
            m))"

text \<open>
  Lines 246-307: the sponsor key check (\<^verbatim>\<open>!env.SPONSOR_PRIVATE_KEY\<close> holds for an unset
  and for an empty key), the sponsor call and the broadcast call. Each call has its own
  \<^verbatim>\<open>catch\<close>; the read of \<^verbatim>\<open>broadcastResult.error\<close> at line 307 stands outside them, so
  what it throws goes to the outermost \<^verbatim>\<open>catch\<close>.
\<close>

definition sponsor_and_broadcast ::
  "stacks_lib \<Rightarrow> env \<Rightarrow> string \<Rightarrow> stacks_tx \<Rightarrow> string \<Rightarrow> event list \<Rightarrow> rate_map \<Rightarrow> outcome" where
  "sponsor_and_broadcast lib e requestId transaction senderHex evs m =
     (case SPONSOR_PRIVATE_KEY e of
        None \<Rightarrow>
          (json_response 500
             [(''error'', Some ''Service not configured''),
              (''details'', Some ''Sponsor key missing'')],
           evs @ [Log Error ''Sponsor key not configured'' [(''request_id'', LStr requestId)]],
           m)
      | Some key \<Rightarrow>
          if key = [] then
            (json_response 500
               [(''error'', Some ''Service not configured''),
                (''details'', Some ''Sponsor key missing'')],
             evs @ [Log Error ''Sponsor key not configured'' [(''request_id'', LStr requestId)]],
             m)
          else
            (let net = getNetwork e;
                 evs1 = evs @ [CallSponsor transaction key net]
             in case sponsorTransaction lib transaction key net of
                  Inl ex \<Rightarrow>
                    (json_response 500
                       [(''error'', Some ''Failed to sponsor transaction''),
                        (''details'', Some (exn_message ex))],
                     evs1 @ [Log Error ''Failed to sponsor transaction''
                               [(''request_id'', LStr requestId),
                                (''error'', LStr (exn_message ex))]],
                     m)
                | Inr sponsoredTx \<Rightarrow>
                    (let evs2 = evs1 @ [CallBroadcast sponsoredTx net]
                     in case broadcastTransaction lib sponsoredTx net of
                          Inl ex \<Rightarrow>
                            (json_response 500
                               [(''error'', Some ''Failed to broadcast transaction''),
                                (''details'', Some (exn_message ex))],
                             evs2 @ [Log Error ''Failed to broadcast transaction''
                                       [(''request_id'', LStr requestId),
                                        (''error'', LStr (exn_message ex))]],
                             m)
                        | Inr BroadcastNull \<Rightarrow>
                            catch_all requestId null_result_error evs2 m
                        | Inr BroadcastUndefined \<Rightarrow>
                            catch_all requestId undefined_result_error evs2 m
                        | Inr (BroadcastObject broadcastResult) \<Rightarrow>
                            broadcast_result_response requestId senderHex broadcastResult
                              evs2 m)))"

text \<open>Lines 183-186: \<^verbatim>\<open>txHex\<close>, the field without an \<^verbatim>\<open>0x\<close> prefix.\<close>

definition txHex :: "string \<Rightarrow> string" where
  "txHex tx = (if startsWith tx ''0x'' then drop 2 tx else tx)"

text \<open>
  Lines 188-244: the deserialization, the check of the authorization type and the rate
  limit, for a \<^verbatim>\<open>transaction\<close> field that is the string \<open>tx\<close>.
\<close>

definition validate_and_relay ::
  "stacks_lib \<Rightarrow> env \<Rightarrow> string \<Rightarrow> int \<Rightarrow> string \<Rightarrow> event list \<Rightarrow> rate_map \<Rightarrow> outcome" where
  "validate_and_relay lib e requestId now tx evs m =
     (let evs1 = evs @ [CallDeserialize (txHex tx)]
      in case deserializeTransaction lib (txHex tx) of
           Inl ex \<Rightarrow>
             (json_response 400
                [(''error'', Some ''Invalid transaction''),
                 (''details'', Some ''Could not deserialize transaction hex'')],
              evs1 @ [Log Warn ''Failed to deserialize transaction''
                        [(''request_id'', LStr requestId), (''error'', LStr (exn_message ex))]],
              m)
         | Inr transaction \<Rightarrow>
             if authType transaction \<noteq> Sponsored then
               (json_response 400
                  [(''error'', Some ''Transaction must be sponsored''),
                   (''details'', Some ''Build transaction with sponsored: true'')],
                evs1 @ [Log Warn ''Transaction not sponsored''
                          [(''request_id'', LStr requestId),
                           (''auth_type'', LAuth (authType transaction))]],
                m)
             else
               (let senderHex = to_hex (signer transaction);
                    evs2 = evs1 @ [CallRateLimit senderHex]
                in case checkRateLimit now senderHex m of
                     (False, m') \<Rightarrow>
                       (json_response 429
                          [(''error'', Some ''Rate limit exceeded''),
                           (''details'', Some ''Maximum 10 requests per minute'')],
                        evs2 @ [Log Warn ''Rate limit exceeded''
                                  [(''request_id'', LStr requestId),
                                   (''sender'', LStr senderHex)]],
                        m')
                   | (True, m') \<Rightarrow>
                       sponsor_and_broadcast lib e requestId transaction senderHex evs2 m'))"

text \<open>
  Lines 165-353, the \<^verbatim>\<open>/relay\<close> branch. The first log call stands before the
  \<^verbatim>\<open>try\<close>. Inside it, three places throw to the outermost \<^verbatim>\<open>catch\<close>:
  \<^verbatim>\<open>request.json()\<close>, \<^verbatim>\<open>body.transaction\<close> on \<^verbatim>\<open>null\<close>, and
  \<^verbatim>\<open>body.transaction.startsWith\<close> on a truthy value that is not a string (no such
  value has a callable \<^verbatim>\<open>startsWith\<close>).
\<close>

definition relay :: "stacks_lib \<Rightarrow> env \<Rightarrow> request \<Rightarrow> string \<Rightarrow> int \<Rightarrow> rate_map \<Rightarrow> outcome" where
  "relay lib e req requestId now m =
     (let evs = [Log Info ''Relay request received'' [(''request_id'', LStr requestId)]]
      in case json_body req of
           Inl ex \<Rightarrow> catch_all requestId ex evs m
         | Inr b \<Rightarrow>
             (case get_transaction b of
                Inl ex \<Rightarrow> catch_all requestId ex evs m
              | Inr None \<Rightarrow>
                  (json_response 400 [(''error'', Some ''Missing transaction field'')], evs, m)
              | Inr (Some v) \<Rightarrow>
                  if \<not> truthy v then
                    (json_response 400 [(''error'', Some ''Missing transaction field'')], evs, m)
                  else
                    (case v of
                       JStr tx \<Rightarrow> validate_and_relay lib e requestId now tx evs m
                     | _ \<Rightarrow> catch_all requestId not_a_function_error evs m)))"

text \<open>The \<^verbatim>\<open>fetch\<close> handler (lines 133-359).\<close>

definition banner :: string where
  "banner = ''x402 Stacks Sponsor Relay'' @ [CHR 0x0A, CHR 0x0A]
     @ ''POST /relay - Submit sponsored transaction'' @ [CHR 0x0A]
     @ ''GET /health - Health check''"

definition fetch :: "stacks_lib \<Rightarrow> env \<Rightarrow> request \<Rightarrow> string \<Rightarrow> int \<Rightarrow> rate_map \<Rightarrow> outcome" where
  "fetch lib e req requestId now m =
     (if http_method req = ''OPTIONS'' then
        (\<lparr>status = 200, headers = corsHeaders, body = NoBody\<rparr>, [], m)
      else if pathname req = ''/health'' then
        (json_response 200
           [(''status'', Some ''ok''), (''network'', Some (STACKS_NETWORK e)),
            (''version'', Some ''0.1.0'')],
         [], m)
      else if pathname req = ''/relay'' \<and> http_method req = ''POST'' then
        relay lib e req requestId now m
      else
        (\<lparr>status = 200, headers = (''Content-Type'', ''text/plain'') # corsHeaders,
          body = TextBody banner\<rparr>, [], m))"

text \<open>
  The four stages of the pipeline, and the stages a run entered, read off its events in
  program order.
\<close>

datatype stage = Validate | RateLimit | Sponsor | Broadcast

fun stage_of :: "event \<Rightarrow> stage option" where
  "stage_of (Log lv msg c) = None"
| "stage_of (CallDeserialize h) = Some Validate"
| "stage_of (CallRateLimit k) = Some RateLimit"
| "stage_of (CallSponsor t k n) = Some Sponsor"
| "stage_of (CallBroadcast t n) = Some Broadcast"

definition stages :: "event list \<Rightarrow> stage list" where
  "stages evs = List.map_filter stage_of evs"

subsection \<open>Sample inputs\<close>

text \<open>
  Concrete inputs for the examples below: a library that decodes \<^verbatim>\<open>0504\<close> to a
  sponsored transaction and \<^verbatim>\<open>0404\<close> to a standard one, both signed by the bytes
  \<^verbatim>\<open>ab\<close> (rate-limit key \<^verbatim>\<open>6162\<close>), throws on every other string, sponsors
  every transaction and resolves every broadcast to the object \<open>r\<close>.
\<close>

definition sample_lib :: "broadcast_result \<Rightarrow> stacks_lib" where
  "sample_lib r =
     \<lparr>deserializeTransaction =
        (\<lambda>h. if h = ''0504'' then Inr \<lparr>authType = Sponsored, signer = ''ab'', rest = []\<rparr>
             else if h = ''0404'' then Inr \<lparr>authType = Standard, signer = ''ab'', rest = []\<rparr>
             else Inl (JsError ''Invalid transaction'')),
      sponsorTransaction = (\<lambda>t key n. Inr t),
      broadcastTransaction = (\<lambda>t n. Inr (BroadcastObject r))\<rparr>"

definition accepted :: broadcast_result where
  "accepted = \<lparr>txid = Some ''0xabc'', error = None, reason = None\<rparr>"

definition configured :: env where
  "configured = \<lparr>STACKS_NETWORK = ''testnet'', SPONSOR_PRIVATE_KEY = Some ''key''\<rparr>"

definition unconfigured :: env where
  "unconfigured = \<lparr>STACKS_NETWORK = ''testnet'', SPONSOR_PRIVATE_KEY = None\<rparr>"

definition post_relay :: "js_exn + json \<Rightarrow> request" where
  "post_relay b = \<lparr>http_method = ''POST'', pathname = ''/relay'', json_body = b\<rparr>"

definition exhausted :: rate_map where
  "exhausted = Map.empty(''6162'' \<mapsto> \<lparr>count = 10, resetAt = 60000\<rparr>)"

section \<open>The rate limiter\<close>

lemma checkRateLimit_other_key:
  "a \<noteq> k \<Longrightarrow> snd (checkRateLimit now a m) k = m k"
  by (simp add: checkRateLimit_def split: option.splits)

lemma run_calls_Cons_fst:
  "fst (run_calls ((t, a) # cs) m) =
     fst (checkRateLimit t a m) # fst (run_calls cs (snd (checkRateLimit t a m)))"
  by (simp split: prod.splits)

lemma run_calls_Cons_snd:
  "snd (run_calls ((t, a) # cs) m) = snd (run_calls cs (snd (checkRateLimit t a m)))"
  by (simp split: prod.splits)

lemma checkRateLimit_fresh:
  "m k = None \<or> (\<exists>e. m k = Some e \<and> resetAt e < now) \<Longrightarrow>
   checkRateLimit now k m = (True, m(k \<mapsto> \<lparr>count = 1, resetAt = now + 60000\<rparr>))"
  by (auto simp: checkRateLimit_def RATE_WINDOW_MS_def)

lemma checkRateLimit_increment:
  "m k = Some e \<Longrightarrow> now \<le> resetAt e \<Longrightarrow> count e < 10 \<Longrightarrow>
   checkRateLimit now k m = (True, m(k \<mapsto> e\<lparr>count := count e + 1\<rparr>))"
  by (simp add: checkRateLimit_def RATE_LIMIT_def)

lemma checkRateLimit_reject:
  "m k = Some e \<Longrightarrow> now \<le> resetAt e \<Longrightarrow> 10 \<le> count e \<Longrightarrow>
   checkRateLimit now k m = (False, m)"
  by (simp add: checkRateLimit_def RATE_LIMIT_def)

text \<open>
  Calls of one sender inside the window of its entry: the call number \<open>i\<close> (from 0) is
  admitted exactly when the count it finds is below the capacity, and the window's end
  stays where it is.
\<close>

lemma run_same_key:
  "m k = Some e \<Longrightarrow> \<forall>t\<in>set ts. t \<le> resetAt e \<Longrightarrow>
   fst (run_calls (map (\<lambda>t. (t, k)) ts) m)
     = map (\<lambda>i. count e + int i < RATE_LIMIT) [0..<length ts]
   \<and> (\<exists>e'. snd (run_calls (map (\<lambda>t. (t, k)) ts) m) k = Some e' \<and> resetAt e' = resetAt e)"
proof (induction ts arbitrary: m e)
  case Nil
  then show ?case by simp
next
  case (Cons t ts)
  show ?case
  proof (cases "count e \<ge> RATE_LIMIT")
    case True
    with Cons.prems have c: "checkRateLimit t k m = (False, m)"
      by (simp add: checkRateLimit_def)
    from Cons.prems have "\<forall>t\<in>set ts. t \<le> resetAt e" by simp
    from Cons.IH[of m e] Cons.prems(1) this c True show ?thesis
      by (simp add: map_upt_Suc run_calls_Cons_fst run_calls_Cons_snd
               del: upt_Suc run_calls.simps)
  next
    case False
    let ?e = "e\<lparr>count := count e + 1\<rparr>"
    let ?m = "m(k \<mapsto> ?e)"
    from False Cons.prems have c: "checkRateLimit t k m = (True, ?m)"
      by (simp add: checkRateLimit_def)
    have 1: "?m k = Some ?e" by simp
    from Cons.prems have 2: "\<forall>t\<in>set ts. t \<le> resetAt ?e" by simp
    note ih = Cons.IH[of ?m ?e, OF 1 2]
    have eqmap: "map (\<lambda>i. count ?e + int i < RATE_LIMIT) [0..<length ts]
          = map (\<lambda>i. count e + int (Suc i) < RATE_LIMIT) [0..<length ts]"
      by (simp add: algebra_simps)
    have r: "resetAt ?e = resetAt e" by simp
    have s: "snd (checkRateLimit t k m) = ?m" "fst (checkRateLimit t k m) = True"
      using c by simp_all
    have h: "(count e + int 0 < RATE_LIMIT) = True" using False by simp
    have A: "fst (run_calls (map (\<lambda>t. (t, k)) ts) ?m)
             = map (\<lambda>i. count e + int (Suc i) < RATE_LIMIT) [0..<length ts]"
      using ih[THEN conjunct1] eqmap by (rule trans)
    have B: "\<exists>e'. snd (run_calls (map (\<lambda>t. (t, k)) ts) ?m) k = Some e'
               \<and> resetAt e' = resetAt e"
      using ih[THEN conjunct2] unfolding r .
    show ?thesis
      unfolding list.map run_calls_Cons_fst run_calls_Cons_snd s length_Cons map_upt_Suc h
      using A B by (intro conjI) (simp_all only: list.map o_def)
  qed
qed

lemma window_answers:
  assumes "m k = None \<or> (\<exists>e. m k = Some e \<and> resetAt e < t0)"
    and "\<forall>t\<in>set ts. t \<le> t0 + 60000"
  shows "fst (run_calls (map (\<lambda>t. (t, k)) (t0 # ts)) m)
           = map (\<lambda>i. i < 10) [0..<Suc (length ts)]"
    and "t0 + 60000 < t' \<Longrightarrow>
         fst (checkRateLimit t' k (snd (run_calls (map (\<lambda>t. (t, k)) (t0 # ts)) m)))"
proof -
  let ?e = "\<lparr>count = 1, resetAt = t0 + 60000\<rparr>"
  let ?m = "m(k \<mapsto> ?e)"
  have c: "checkRateLimit t0 k m = (True, ?m)"
    using assms(1) by (rule checkRateLimit_fresh)
  have 1: "?m k = Some ?e" by simp
  have 2: "\<forall>t\<in>set ts. t \<le> resetAt ?e" using assms(2) by simp
  note r = run_same_key[of ?m k ?e ts, OF 1 2]
  have "map (\<lambda>i. count ?e + int i < RATE_LIMIT) [0..<length ts]
          = map (\<lambda>i. Suc i < 10) [0..<length ts]"
    by (auto simp: RATE_LIMIT_def)
  with r c show "fst (run_calls (map (\<lambda>t. (t, k)) (t0 # ts)) m)
                   = map (\<lambda>i. i < 10) [0..<Suc (length ts)]"
    by (simp add: map_upt_Suc run_calls_Cons_fst del: upt_Suc run_calls.simps)
  from r obtain e' where
    e': "snd (run_calls (map (\<lambda>t. (t, k)) ts) ?m) k = Some e'" "resetAt e' = t0 + 60000"
    by auto
  assume "t0 + 60000 < t'"
  with e' c show
    "fst (checkRateLimit t' k (snd (run_calls (map (\<lambda>t. (t, k)) (t0 # ts)) m)))"
    by (simp add: run_calls_Cons_snd checkRateLimit_def del: run_calls.simps)
qed

text \<open>
  C2, as the code has it. A call for sender \<open>k\<close> at time \<open>now\<close>:
  \<^item> if there is no entry, or \<open>now\<close> is strictly after the entry's \<open>resetAt\<close>, the
    entry becomes \<open>count = 1\<close>, \<open>resetAt = now + 60000\<close> and the call admits;
  \<^item> otherwise (\<open>now \<le> resetAt\<close>, the instant \<open>resetAt\<close> itself included), if
    \<open>count < 10\<close> the count is incremented and the call admits, and if
    \<open>count \<ge> 10\<close> the call rejects and leaves the map as it is.
  Consequently, when a call at \<open>now\<close> opens a window, of the calls of that sender at
  times up to \<open>now + 60000\<close> exactly the first 10 (the opening one included) are
  admitted and every later one is rejected, and a call after \<open>now + 60000\<close> is admitted
  again.
\<close>

theorem checkRateLimit_fixed_window:
  "(m k = None \<or> (\<exists>e. m k = Some e \<and> resetAt e < now) \<longrightarrow>
      checkRateLimit now k m = (True, m(k \<mapsto> \<lparr>count = 1, resetAt = now + 60000\<rparr>)))
   \<and> (\<forall>e. m k = Some e \<and> now \<le> resetAt e \<and> count e < 10 \<longrightarrow>
      checkRateLimit now k m = (True, m(k \<mapsto> e\<lparr>count := count e + 1\<rparr>)))
   \<and> (\<forall>e. m k = Some e \<and> now \<le> resetAt e \<and> 10 \<le> count e \<longrightarrow>
      checkRateLimit now k m = (False, m))
   \<and> ((m k = None \<or> (\<exists>e. m k = Some e \<and> resetAt e < now))
        \<and> (\<forall>t\<in>set ts. t \<le> now + 60000) \<longrightarrow>
      fst (run_calls (map (\<lambda>t. (t, k)) (now # ts)) m)
        = map (\<lambda>i. i < 10) [0..<Suc (length ts)]
      \<and> (\<forall>t'. now + 60000 < t' \<longrightarrow>
           fst (checkRateLimit t' k (snd (run_calls (map (\<lambda>t. (t, k)) (now # ts)) m)))))"
proof (intro conjI allI impI)
  assume "m k = None \<or> (\<exists>e. m k = Some e \<and> resetAt e < now)"
  then show "checkRateLimit now k m = (True, m(k \<mapsto> \<lparr>count = 1, resetAt = now + 60000\<rparr>))"
    by (rule checkRateLimit_fresh)
next
  fix e assume "m k = Some e \<and> now \<le> resetAt e \<and> count e < 10"
  then show "checkRateLimit now k m = (True, m(k \<mapsto> e\<lparr>count := count e + 1\<rparr>))"
    by (simp add: checkRateLimit_increment)
next
  fix e assume "m k = Some e \<and> now \<le> resetAt e \<and> 10 \<le> count e"
  then show "checkRateLimit now k m = (False, m)"
    by (simp add: checkRateLimit_reject)
next
  assume a: "(m k = None \<or> (\<exists>e. m k = Some e \<and> resetAt e < now))
             \<and> (\<forall>t\<in>set ts. t \<le> now + 60000)"
  then show "fst (run_calls (map (\<lambda>t. (t, k)) (now # ts)) m)
               = map (\<lambda>i. i < 10) [0..<Suc (length ts)]"
    by (intro window_answers(1)) simp_all
  fix t' assume "now + 60000 < t'"
  with a show "fst (checkRateLimit t' k (snd (run_calls (map (\<lambda>t. (t, k)) (now # ts)) m)))"
    by (intro window_answers(2)) simp_all
qed

text \<open>
  Eleven calls of one sender at times 0 to 10 on the empty map: ten admitted, the
  eleventh rejected, and a call at 60001 admitted again.
\<close>

theorem checkRateLimit_fixed_window_witness:
  "fst (run_calls (map (\<lambda>t. (t, ''6162'')) [0, 1, 2, 3, 4, 5, 6, 7, 8, 9, 10]) Map.empty)
     = [True, True, True, True, True, True, True, True, True, True, False]
   \<and> fst (checkRateLimit 60001 ''6162''
        (snd (run_calls (map (\<lambda>t. (t, ''6162'')) [0, 1, 2, 3, 4, 5, 6, 7, 8, 9, 10])
               Map.empty)))"
proof -
  have h: "(Map.empty ''6162'' = (None :: rate_entry option)
            \<or> (\<exists>e. Map.empty ''6162'' = Some (e :: rate_entry) \<and> resetAt e < 0))
           \<and> (\<forall>t\<in>set [1, 2, 3, 4, 5, 6, 7, 8, 9, 10::int]. t \<le> 0 + 60000)"
    by simp
  from checkRateLimit_fixed_window
         [of Map.empty "''6162''" 0 "[1, 2, 3, 4, 5, 6, 7, 8, 9, 10]"] h
  have "fst (run_calls (map (\<lambda>t. (t, ''6162'')) (0 # [1, 2, 3, 4, 5, 6, 7, 8, 9, 10]))
               Map.empty)
          = map (\<lambda>i. i < 10) [0..<Suc (length [1, 2, 3, 4, 5, 6, 7, 8, 9, 10::int])]
        \<and> (\<forall>t'. 0 + 60000 < t' \<longrightarrow>
             fst (checkRateLimit t' ''6162''
                   (snd (run_calls (map (\<lambda>t. (t, ''6162'')) (0 # [1, 2, 3, 4, 5, 6, 7, 8, 9, 10]))
                          Map.empty))))"
    by blast
  moreover have "map (\<lambda>i. i < 10) [0..<Suc (length [1, 2, 3, 4, 5, 6, 7, 8, 9, 10::int])]
      = [True, True, True, True, True, True, True, True, True, True, False]"
    by code_simp
  ultimately show ?thesis
    by (simp del: run_calls.simps upt_Suc)
qed

text \<open>
  The instant \<open>resetAt\<close> still belongs to the old window: after ten calls at time 0 the
  entry is \<open>count = 10\<close>, \<open>resetAt = 60000\<close>, and a call at time 60000 (which is
  \<open>\<ge> resetAt\<close>) is rejected, with the entry left as it was.
\<close>

theorem checkRateLimit_at_resetAt_counterexample:
  "snd (run_calls (map (\<lambda>t. (t, ''6162'')) [0, 0, 0, 0, 0, 0, 0, 0, 0, 0]) Map.empty) ''6162''
     = Some \<lparr>count = 10, resetAt = 60000\<rparr>
   \<and> \<not> fst (checkRateLimit 60000 ''6162''
          (snd (run_calls (map (\<lambda>t. (t, ''6162'')) [0, 0, 0, 0, 0, 0, 0, 0, 0, 0]) Map.empty)))
   \<and> snd (checkRateLimit 60000 ''6162''
          (snd (run_calls (map (\<lambda>t. (t, ''6162'')) [0, 0, 0, 0, 0, 0, 0, 0, 0, 0]) Map.empty)))
        ''6162''
     = Some \<lparr>count = 10, resetAt = 60000\<rparr>"
  by (simp add: checkRateLimit_def RATE_LIMIT_def RATE_WINDOW_MS_def)

lemma checkRateLimit_preserves_bounds:
  assumes "\<forall>k e. m k = Some e \<longrightarrow> 1 \<le> count e \<and> count e \<le> RATE_LIMIT"
  shows "\<forall>k e. snd (checkRateLimit now a m) k = Some e
           \<longrightarrow> 1 \<le> count e \<and> count e \<le> RATE_LIMIT"
proof (intro allI impI)
  fix k e
  assume s: "snd (checkRateLimit now a m) k = Some e"
  show "1 \<le> count e \<and> count e \<le> RATE_LIMIT"
  proof (cases "k = a")
    case False
    with s have "m k = Some e" by (simp add: checkRateLimit_other_key)
    with assms show ?thesis by blast
  next
    case True
    show ?thesis
    proof (cases "m a")
      case None
      with s True show ?thesis
        by (auto simp: checkRateLimit_def RATE_LIMIT_def)
    next
      case (Some e0)
      with assms have "1 \<le> count e0 \<and> count e0 \<le> RATE_LIMIT" by blast
      with s True Some show ?thesis
        by (auto simp: checkRateLimit_def RATE_LIMIT_def split: if_splits)
    qed
  qed
qed

lemma run_calls_preserves_bounds:
  "\<forall>k e. m k = Some e \<longrightarrow> 1 \<le> count e \<and> count e \<le> RATE_LIMIT \<Longrightarrow>
   \<forall>k e. snd (run_calls cs m) k = Some e \<longrightarrow> 1 \<le> count e \<and> count e \<le> RATE_LIMIT"
proof (induction cs arbitrary: m)
  case Nil
  then show ?case by simp
next
  case (Cons c cs)
  obtain t a where c: "c = (t, a)" by (cases c)
  from Cons.prems have "\<forall>k e. snd (checkRateLimit t a m) k = Some e
           \<longrightarrow> 1 \<le> count e \<and> count e \<le> RATE_LIMIT"
    by (rule checkRateLimit_preserves_bounds)
  from Cons.IH[OF this] show ?case
    unfolding c run_calls_Cons_snd .
qed

text \<open>
  C8. Starting from the empty map of a fresh process, after any sequence of calls of the
  rate limiter (any senders, any clock readings) every stored entry has
  \<open>1 \<le> count \<le> 10\<close>.
\<close>

theorem count_within_capacity:
  "snd (run_calls cs Map.empty) k = Some e \<Longrightarrow> 1 \<le> count e \<and> count e \<le> 10"
proof -
  assume a: "snd (run_calls cs Map.empty) k = Some e"
  have "\<forall>k e. (Map.empty :: rate_map) k = Some e \<longrightarrow> 1 \<le> count e \<and> count e \<le> RATE_LIMIT"
    by simp
  from run_calls_preserves_bounds[OF this, of cs] a show ?thesis
    by (simp add: RATE_LIMIT_def)
qed

text \<open>Twelve calls of one sender at time 0 leave the count at 10.\<close>

theorem count_within_capacity_witness:
  "snd (run_calls (map (\<lambda>t. (t, ''6162'')) [0, 0, 0, 0, 0, 0, 0, 0, 0, 0, 0, 0]) Map.empty)
     ''6162'' = Some \<lparr>count = 10, resetAt = 60000\<rparr>
   \<and> (1::int) \<le> count \<lparr>count = 10, resetAt = 60000\<rparr>
   \<and> count \<lparr>count = 10, resetAt = 60000\<rparr> \<le> (10::int)"
proof -
  have h: "snd (run_calls (map (\<lambda>t. (t, ''6162'')) [0, 0, 0, 0, 0, 0, 0, 0, 0, 0, 0, 0])
                  Map.empty) ''6162'' = Some \<lparr>count = 10, resetAt = 60000\<rparr>"
    by (simp add: checkRateLimit_def RATE_LIMIT_def RATE_WINDOW_MS_def)
  from count_within_capacity[OF h] h show ?thesis by simp
qed

section \<open>The handler\<close>

lemma fetch_relay:
  "http_method req = ''POST'' \<Longrightarrow> pathname req = ''/relay'' \<Longrightarrow>
   fetch lib e req rid now m = relay lib e req rid now m"
  by (simp add: fetch_def)

lemma stages_append: "stages (xs @ ys) = stages xs @ stages ys"
  by (simp add: stages_def map_filter_def)

lemma stages_simps:
  "stages [] = []"
  "stages (Log lv msg c # evs) = stages evs"
  "stages (CallDeserialize h # evs) = Validate # stages evs"
  "stages (CallRateLimit k # evs) = RateLimit # stages evs"
  "stages (CallSponsor t key n # evs) = Sponsor # stages evs"
  "stages (CallBroadcast t n # evs) = Broadcast # stages evs"
  by (simp_all add: stages_def map_filter_def)

lemmas relay_defs = relay_def validate_and_relay_def sponsor_and_broadcast_def
  broadcast_result_response_def catch_all_def

lemmas sample_defs = sample_lib_def accepted_def configured_def unconfigured_def
  post_relay_def exhausted_def

lemmas run_defs = fetch_def relay_defs Let_def json_response_def txHex_def startsWith_def
  to_hex_def hex_byte_def hex_digit_def checkRateLimit_def RATE_LIMIT_def
  RATE_WINDOW_MS_def getNetwork_def js_or_def

section \<open>The result of the broadcast\<close>

lemma js_or_Some:
  "js_or a (Some er) = Some (case a of None \<Rightarrow> er | Some rs \<Rightarrow> if rs = [] then er else rs)"
  by (cases a) (auto simp: js_or_def)

text \<open>The run up to the object the broadcast call resolved to.\<close>

lemma relay_reaches_broadcast_result:
  assumes "http_method req = ''POST''" and "pathname req = ''/relay''"
    and "json_body req = Inr b" and "get_transaction b = Inr (Some (JStr tx))" and "tx \<noteq> []"
    and "deserializeTransaction lib (txHex tx) = Inr t" and "authType t = Sponsored"
    and "checkRateLimit now (to_hex (signer t)) m = (True, m1)"
    and "SPONSOR_PRIVATE_KEY e = Some key" and "key \<noteq> []"
    and "sponsorTransaction lib t key (getNetwork e) = Inr t'"
    and "broadcastTransaction lib t' (getNetwork e) = Inr (BroadcastObject r)"
  shows "fetch lib e req rid now m =
     broadcast_result_response rid (to_hex (signer t)) r
       [Log Info ''Relay request received'' [(''request_id'', LStr rid)],
        CallDeserialize (txHex tx), CallRateLimit (to_hex (signer t)),
        CallSponsor t key (getNetwork e), CallBroadcast t' (getNetwork e)] m1"
  using assms
  by (simp add: fetch_relay relay_def validate_and_relay_def sponsor_and_broadcast_def Let_def)

text \<open>
  C1. The claim: a broadcast result is a success if and only if it contains a
  transaction id and no rejection marker; with a rejection marker (even together with a
  txid) the answer is \<^verbatim>\<open>Broadcast rejected\<close>, and with neither the answer is an internal
  error. The code tests only \<^verbatim>\<open>broadcastResult.error\<close> and then takes
  \<^verbatim>\<open>broadcastResult.txid!\<close> for granted: when the broadcast resolves to an object with
  neither a \<open>txid\<close> nor an \<open>error\<close>, the run is logged as
  \<^verbatim>\<open>Transaction sponsored and broadcast\<close> and answered 200 with the body \<^verbatim>\<open>{}\<close>, a
  success without a transaction id.
\<close>

theorem broadcast_result_neither_answered_200:
  "fst (fetch (sample_lib \<lparr>txid = None, error = None, reason = None\<rparr>) configured
      (post_relay (Inr (JObj [(''transaction'', JStr ''0504'')]))) ''id'' 0 Map.empty)
     = \<lparr>status = 200,
        headers = (''Content-Type'', ''application/json'') # corsHeaders,
        body = JsonBody []\<rparr>
   \<and> fst (snd (fetch (sample_lib \<lparr>txid = None, error = None, reason = None\<rparr>) configured
      (post_relay (Inr (JObj [(''transaction'', JStr ''0504'')]))) ''id'' 0 Map.empty))
     = [Log Info ''Relay request received'' [(''request_id'', LStr ''id'')],
        CallDeserialize ''0504'',
        CallRateLimit ''6162'',
        CallSponsor \<lparr>authType = Sponsored, signer = ''ab'', rest = []\<rparr> ''key'' STACKS_TESTNET,
        CallBroadcast \<lparr>authType = Sponsored, signer = ''ab'', rest = []\<rparr> STACKS_TESTNET,
        Log Info ''Transaction sponsored and broadcast''
          [(''request_id'', LStr ''id''), (''txid'', LOptStr None),
           (''sender'', LStr ''6162'')]]"
  by (simp add: run_defs sample_defs)

text \<open>
  C6, as the code has it. For a run that reaches the broadcast call and gets \<open>r\<close> back:
  if \<open>r\<close> carries a non-empty \<open>error\<close>, the answer is 400 with \<open>details\<close> equal to
  \<open>reason\<close> when that is present and non-empty, else equal to \<open>error\<close>; if \<open>r\<close>
  carries a \<open>txid\<close> and no \<open>error\<close>, the answer is 200 and its body is the object with
  that \<open>txid\<close> alone (no \<open>error\<close> key).
\<close>

theorem broadcast_rejection_details:
  assumes "http_method req = ''POST''" and "pathname req = ''/relay''"
    and "json_body req = Inr b" and "get_transaction b = Inr (Some (JStr tx))" and "tx \<noteq> []"
    and "deserializeTransaction lib (txHex tx) = Inr t" and "authType t = Sponsored"
    and "checkRateLimit now (to_hex (signer t)) m = (True, m1)"
    and "SPONSOR_PRIVATE_KEY e = Some key" and "key \<noteq> []"
    and "sponsorTransaction lib t key (getNetwork e) = Inr t'"
    and "broadcastTransaction lib t' (getNetwork e) = Inr (BroadcastObject r)"
    and "fetch lib e req rid now m = (resp, evs, m')"
  shows "(\<forall>er. error r = Some er \<and> er \<noteq> [] \<longrightarrow>
           status resp = 400
           \<and> body resp = JsonBody
                [(''error'', ''Broadcast rejected''),
                 (''details'', case reason r of
                                 None \<Rightarrow> er
                               | Some rs \<Rightarrow> if rs = [] then er else rs)])
    \<and> (\<forall>i. txid r = Some i \<and> error r = None \<longrightarrow>
           status resp = 200 \<and> body resp = JsonBody [(''txid'', i)])"
proof -
  note run = assms(13)[unfolded relay_reaches_broadcast_result[OF assms(1-12)]]
  from run show ?thesis
    by (auto simp: broadcast_result_response_def json_response_def js_or_Some)
qed

text \<open>A rejection with a reason, and an accepted broadcast.\<close>

theorem broadcast_rejection_details_witness:
  "body (fst (fetch (sample_lib \<lparr>txid = None, error = Some ''transaction rejected'',
                                 reason = Some ''BadNonce''\<rparr>)
      configured (post_relay (Inr (JObj [(''transaction'', JStr ''0504'')]))) ''id'' 0 Map.empty))
     = JsonBody [(''error'', ''Broadcast rejected''), (''details'', ''BadNonce'')]
   \<and> body (fst (fetch (sample_lib \<lparr>txid = Some ''0xabc'', error = None, reason = None\<rparr>)
      configured (post_relay (Inr (JObj [(''transaction'', JStr ''0504'')]))) ''id'' 0 Map.empty))
     = JsonBody [(''txid'', ''0xabc'')]"
proof -
  let ?r = "\<lparr>txid = None, error = Some ''transaction rejected'', reason = Some ''BadNonce''\<rparr>"
  let ?a = "\<lparr>txid = Some ''0xabc'', error = None, reason = None\<rparr>"
  let ?req = "post_relay (Inr (JObj [(''transaction'', JStr ''0504'')]))"
  let ?t = "\<lparr>authType = Sponsored, signer = ''ab'', rest = []\<rparr>"
  let ?m1 = "Map.empty(''6162'' \<mapsto> \<lparr>count = 1, resetAt = 60000\<rparr>)"
  let ?out = "\<lambda>r. fetch (sample_lib r) configured ?req ''id'' 0 Map.empty"
  have 1: "body (fst (?out ?r))
            = JsonBody [(''error'', ''Broadcast rejected''), (''details'', ''BadNonce'')]"
    using broadcast_rejection_details
      [of ?req "JObj [(''transaction'', JStr ''0504'')]" "''0504''" "sample_lib ?r" ?t
          0 Map.empty ?m1 configured "''key''" ?t ?r "''id''"
          "fst (?out ?r)" "fst (snd (?out ?r))" "snd (snd (?out ?r))"]
    by (simp add: sample_defs txHex_def startsWith_def to_hex_def hex_byte_def hex_digit_def
          checkRateLimit_def RATE_WINDOW_MS_def getNetwork_def)
  have 2: "body (fst (?out ?a)) = JsonBody [(''txid'', ''0xabc'')]"
    using broadcast_rejection_details
      [of ?req "JObj [(''transaction'', JStr ''0504'')]" "''0504''" "sample_lib ?a" ?t
          0 Map.empty ?m1 configured "''key''" ?t ?a "''id''"
          "fst (?out ?a)" "fst (snd (?out ?a))" "snd (snd (?out ?a))"]
    by (simp add: sample_defs txHex_def startsWith_def to_hex_def hex_byte_def hex_digit_def
          checkRateLimit_def RATE_WINDOW_MS_def getNetwork_def)
  from 1 2 show ?thesis by simp
qed

text \<open>
  A rejection whose \<open>reason\<close> is present and is the empty string: \<open>details\<close> is the
  \<open>error\<close>, not the \<open>reason\<close> (\<^verbatim>\<open>"" || error\<close>).
\<close>

theorem empty_reason_details_counterexample:
  "body (fst (fetch (sample_lib \<lparr>txid = None, error = Some ''transaction rejected'',
                                 reason = Some []\<rparr>)
      configured (post_relay (Inr (JObj [(''transaction'', JStr ''0504'')]))) ''id'' 0 Map.empty))
     = JsonBody [(''error'', ''Broadcast rejected''), (''details'', ''transaction rejected'')]"
  by (simp add: run_defs sample_defs)

section \<open>The sponsor key\<close>

text \<open>
  C4, as the code has it. When the sponsor key is unset (or empty), no \<^verbatim>\<open>/relay\<close> POST
  reaches the sponsor or the broadcast call. The key is checked after the validation
  and the rate limit: a request that passes both is answered 500
  \<^verbatim>\<open>Service not configured\<close>, and only such a request gets that answer.
\<close>

theorem unconfigured_no_sponsorship:
  assumes "http_method req = ''POST''" and "pathname req = ''/relay''"
    and "\<not> truthy_str (SPONSOR_PRIVATE_KEY e)"
    and "fetch lib e req rid now m = (resp, evs, m')"
  shows "Sponsor \<notin> set (stages evs) \<and> Broadcast \<notin> set (stages evs)
    \<and> (\<forall>b tx t. json_body req = Inr b \<and> get_transaction b = Inr (Some (JStr tx)) \<and> tx \<noteq> []
          \<and> deserializeTransaction lib (txHex tx) = Inr t \<and> authType t = Sponsored
          \<and> fst (checkRateLimit now (to_hex (signer t)) m) \<longrightarrow>
        status resp = 500
        \<and> body resp = JsonBody [(''error'', ''Service not configured''),
                                (''details'', ''Sponsor key missing'')]
        \<and> stages evs = [Validate, RateLimit])
    \<and> (body resp = JsonBody [(''error'', ''Service not configured''),
                             (''details'', ''Sponsor key missing'')] \<longrightarrow>
        stages evs = [Validate, RateLimit])"
  using assms
  apply (simp add: fetch_relay)
  apply (auto simp: relay_defs stages_append stages_simps json_response_def Let_def
       split: sum.splits option.splits json.splits if_splits prod.splits bool.splits
         broadcast_value.splits)
  done

text \<open>A valid sponsored transaction, with the key unset.\<close>

theorem unconfigured_no_sponsorship_witness:
  "status (fst (fetch (sample_lib accepted) unconfigured
      (post_relay (Inr (JObj [(''transaction'', JStr ''0504'')]))) ''id'' 0 Map.empty)) = 500
   \<and> Sponsor \<notin> set (stages (fst (snd (fetch (sample_lib accepted) unconfigured
      (post_relay (Inr (JObj [(''transaction'', JStr ''0504'')]))) ''id'' 0 Map.empty))))"
proof -
  let ?req = "post_relay (Inr (JObj [(''transaction'', JStr ''0504'')]))"
  let ?out = "fetch (sample_lib accepted) unconfigured ?req ''id'' 0 Map.empty"
  have "\<not> truthy_str (SPONSOR_PRIVATE_KEY unconfigured)"
    by (simp add: unconfigured_def)
  from unconfigured_no_sponsorship
         [of ?req unconfigured "sample_lib accepted" "''id''" 0 Map.empty
             "fst ?out" "fst (snd ?out)" "snd (snd ?out)", OF _ _ this]
  show ?thesis
    by (simp add: sample_defs txHex_def startsWith_def to_hex_def hex_byte_def hex_digit_def
          checkRateLimit_def RATE_WINDOW_MS_def)
qed

text \<open>
  With the key unset, the body \<^verbatim>\<open>{}\<close> is answered 400
  \<^verbatim>\<open>Missing transaction field\<close>, not 500.
\<close>

theorem unconfigured_missing_field_counterexample:
  "SPONSOR_PRIVATE_KEY unconfigured = None
   \<and> status (fst (fetch (sample_lib accepted) unconfigured (post_relay (Inr (JObj [])))
                ''id'' 0 Map.empty)) = 400
   \<and> body (fst (fetch (sample_lib accepted) unconfigured (post_relay (Inr (JObj [])))
                ''id'' 0 Map.empty)) = JsonBody [(''error'', ''Missing transaction field'')]"
  by (simp add: run_defs sample_defs)

section \<open>The transaction field\<close>

text \<open>
  C5. The claim: a \<^verbatim>\<open>/relay\<close> POST whose \<^verbatim>\<open>transaction\<close> is missing or is not a
  string fails with 400 at once, with no further processing. The code checks only
  \<^verbatim>\<open>!body.transaction\<close>: for the body \<^verbatim>\<open>{"transaction": 123}\<close> the field is truthy,
  \<^verbatim>\<open>body.transaction.startsWith\<close> throws a TypeError, and the outermost catch logs
  \<^verbatim>\<open>Unexpected error\<close> and answers 500 \<^verbatim>\<open>Internal server error\<close>. No stage of the
  pipeline is entered and the rate-limit map is untouched.
\<close>

theorem numeric_transaction_field_answered_500:
  "status (fst (fetch (sample_lib accepted) configured
      (post_relay (Inr (JObj [(''transaction'', JNum 123)]))) ''id'' 0 Map.empty)) = 500
   \<and> body (fst (fetch (sample_lib accepted) configured
      (post_relay (Inr (JObj [(''transaction'', JNum 123)]))) ''id'' 0 Map.empty))
     = JsonBody [(''error'', ''Internal server error''),
                 (''details'', ''body.transaction.startsWith is not a function'')]
   \<and> fst (snd (fetch (sample_lib accepted) configured
      (post_relay (Inr (JObj [(''transaction'', JNum 123)]))) ''id'' 0 Map.empty))
     = [Log Info ''Relay request received'' [(''request_id'', LStr ''id'')],
        Log Error ''Unexpected error''
          [(''request_id'', LStr ''id''),
           (''error'', LStr ''body.transaction.startsWith is not a function'')]]
   \<and> snd (snd (fetch (sample_lib accepted) configured
      (post_relay (Inr (JObj [(''transaction'', JNum 123)]))) ''id'' 0 Map.empty)) = Map.empty"
  by (simp add: run_defs sample_defs not_a_function_error_def)

section \<open>The \<^verbatim>\<open>0x\<close> prefix\<close>

lemma txHex_prefixed:
  "\<not> startsWith h ''0x'' \<Longrightarrow> txHex (CHR ''0'' # CHR ''x'' # h) = txHex h"
  by (simp add: txHex_def startsWith_def)

text \<open>A string of hex digits does not begin with \<^verbatim>\<open>0x\<close>.\<close>

lemma hex_string_not_prefixed:
  assumes "set h \<subseteq> set ''0123456789abcdefABCDEF''"
  shows "\<not> startsWith h ''0x''"
proof
  assume "startsWith h ''0x''"
  then have "take (length ''0x'') h = ''0x''" by (simp only: startsWith_def)
  then have "CHR ''x'' \<in> set (take (length ''0x'') h)" by simp
  then have "CHR ''x'' \<in> set h" by (rule in_set_takeD)
  with assms show False by auto
qed

text \<open>
  The prefix is immaterial for every non-empty string that does not itself begin with
  \<^verbatim>\<open>0x\<close>.
\<close>

lemma strip_prefix_same_outcome:
  assumes "h \<noteq> []" and "\<not> startsWith h ''0x''"
    and "http_method req' = http_method req" and "pathname req' = pathname req"
    and "json_body req = Inr b" and "get_transaction b = Inr (Some (JStr h))"
    and "json_body req' = Inr b'" and "get_transaction b' = Inr (Some (JStr (''0x'' @ h)))"
  shows "fetch lib e req' rid now m = fetch lib e req rid now m"
  using assms
  by (simp add: fetch_def relay_def validate_and_relay_def txHex_prefixed)

text \<open>
  C7. For every non-empty string \<open>h\<close> of hex digits: \<^verbatim>\<open>txHex\<close> is \<open>h\<close> both for
  \<open>h\<close> and for \<open>h\<close> with \<^verbatim>\<open>0x\<close> in front (the prefix is stripped, an unprefixed
  string is left alone), and two requests that differ only in that the
  \<^verbatim>\<open>transaction\<close> of one is \<open>h\<close> and of the other is \<^verbatim>\<open>0x\<close> followed by \<open>h\<close> have the
  same outcome (response, events, rate-limit map). For a \<^verbatim>\<open>/relay\<close> POST, the
  deserializer is handed \<open>h\<close> itself, right after the first log event, and the result
  of the validation is what the deserializer makes of \<open>h\<close>: 400
  \<^verbatim>\<open>Invalid transaction\<close> when it throws, 400 \<^verbatim>\<open>Transaction must be sponsored\<close> when
  the transaction is not sponsored, and otherwise the run goes on to the rate limiter
  with the signer of that transaction.
\<close>

theorem prefix_0x_same_result:
  assumes "h \<noteq> []" and "set h \<subseteq> set ''0123456789abcdefABCDEF''"
    and "http_method req' = http_method req" and "pathname req' = pathname req"
    and "json_body req = Inr b" and "get_transaction b = Inr (Some (JStr h))"
    and "json_body req' = Inr b'" and "get_transaction b' = Inr (Some (JStr (''0x'' @ h)))"
  shows "txHex (''0x'' @ h) = h \<and> txHex h = h
     \<and> fetch lib e req' rid now m = fetch lib e req rid now m
     \<and> (http_method req = ''POST'' \<and> pathname req = ''/relay'' \<longrightarrow>
          take 2 (fst (snd (fetch lib e req' rid now m)))
            = [Log Info ''Relay request received'' [(''request_id'', LStr rid)],
               CallDeserialize h]
          \<and> (\<forall>ex. deserializeTransaction lib h = Inl ex \<longrightarrow>
                status (fst (fetch lib e req' rid now m)) = 400
                \<and> body (fst (fetch lib e req' rid now m))
                    = JsonBody [(''error'', ''Invalid transaction''),
                                (''details'', ''Could not deserialize transaction hex'')])
          \<and> (\<forall>t. deserializeTransaction lib h = Inr t \<and> authType t \<noteq> Sponsored \<longrightarrow>
                status (fst (fetch lib e req' rid now m)) = 400
                \<and> body (fst (fetch lib e req' rid now m))
                    = JsonBody [(''error'', ''Transaction must be sponsored''),
                                (''details'', ''Build transaction with sponsored: true'')])
          \<and> (\<forall>t. deserializeTransaction lib h = Inr t \<and> authType t = Sponsored \<longrightarrow>
                take 3 (fst (snd (fetch lib e req' rid now m)))
                  = [Log Info ''Relay request received'' [(''request_id'', LStr rid)],
                     CallDeserialize h, CallRateLimit (to_hex (signer t))]))"
proof -
  from assms(2) have n: "\<not> startsWith h ''0x''" by (rule hex_string_not_prefixed)
  have t1: "txHex (''0x'' @ h) = h" by (simp add: txHex_def startsWith_def)
  have t2: "txHex h = h" using n by (simp add: txHex_def)
  have eq: "fetch lib e req' rid now m = fetch lib e req rid now m"
    using assms(1) n assms(3-8) by (rule strip_prefix_same_outcome)
  have run: "http_method req = ''POST'' \<Longrightarrow> pathname req = ''/relay'' \<Longrightarrow>
      fetch lib e req rid now m
        = validate_and_relay lib e rid now h
            [Log Info ''Relay request received'' [(''request_id'', LStr rid)]] m"
    using assms(1,5,6) by (simp add: fetch_relay relay_def)
  have p: "http_method req = ''POST'' \<and> pathname req = ''/relay'' \<longrightarrow>
          take 2 (fst (snd (fetch lib e req rid now m)))
            = [Log Info ''Relay request received'' [(''request_id'', LStr rid)],
               CallDeserialize h]
          \<and> (\<forall>ex. deserializeTransaction lib h = Inl ex \<longrightarrow>
                status (fst (fetch lib e req rid now m)) = 400
                \<and> body (fst (fetch lib e req rid now m))
                    = JsonBody [(''error'', ''Invalid transaction''),
                                (''details'', ''Could not deserialize transaction hex'')])
          \<and> (\<forall>t. deserializeTransaction lib h = Inr t \<and> authType t \<noteq> Sponsored \<longrightarrow>
                status (fst (fetch lib e req rid now m)) = 400
                \<and> body (fst (fetch lib e req rid now m))
                    = JsonBody [(''error'', ''Transaction must be sponsored''),
                                (''details'', ''Build transaction with sponsored: true'')])
          \<and> (\<forall>t. deserializeTransaction lib h = Inr t \<and> authType t = Sponsored \<longrightarrow>
                take 3 (fst (snd (fetch lib e req rid now m)))
                  = [Log Info ''Relay request received'' [(''request_id'', LStr rid)],
                     CallDeserialize h, CallRateLimit (to_hex (signer t))])"
  proof (intro impI, elim conjE)
    assume "http_method req = ''POST''" and "pathname req = ''/relay''"
    note r = run[OF this]
    show "take 2 (fst (snd (fetch lib e req rid now m)))
            = [Log Info ''Relay request received'' [(''request_id'', LStr rid)],
               CallDeserialize h]
          \<and> (\<forall>ex. deserializeTransaction lib h = Inl ex \<longrightarrow>
                status (fst (fetch lib e req rid now m)) = 400
                \<and> body (fst (fetch lib e req rid now m))
                    = JsonBody [(''error'', ''Invalid transaction''),
                                (''details'', ''Could not deserialize transaction hex'')])
          \<and> (\<forall>t. deserializeTransaction lib h = Inr t \<and> authType t \<noteq> Sponsored \<longrightarrow>
                status (fst (fetch lib e req rid now m)) = 400
                \<and> body (fst (fetch lib e req rid now m))
                    = JsonBody [(''error'', ''Transaction must be sponsored''),
                                (''details'', ''Build transaction with sponsored: true'')])
          \<and> (\<forall>t. deserializeTransaction lib h = Inr t \<and> authType t = Sponsored \<longrightarrow>
                take 3 (fst (snd (fetch lib e req rid now m)))
                  = [Log Info ''Relay request received'' [(''request_id'', LStr rid)],
                     CallDeserialize h, CallRateLimit (to_hex (signer t))])"
      unfolding r
      by (auto simp: validate_and_relay_def sponsor_and_broadcast_def
            broadcast_result_response_def catch_all_def t2 Let_def json_response_def
          split: sum.splits prod.splits bool.splits option.splits broadcast_value.splits)
  qed
  from t1 t2 eq p show ?thesis by (simp only: eq)
qed

text \<open>
  The sponsored transaction \<^verbatim>\<open>0504\<close> of the sample library: sent as \<^verbatim>\<open>0x0504\<close> it is
  answered as \<^verbatim>\<open>0504\<close> is, the deserializer gets \<^verbatim>\<open>0504\<close>, and the answer is 200.
\<close>

theorem prefix_0x_same_result_witness:
  "fetch (sample_lib accepted) configured
      (post_relay (Inr (JObj [(''transaction'', JStr ''0x0504'')]))) ''id'' 0 Map.empty
   = fetch (sample_lib accepted) configured
      (post_relay (Inr (JObj [(''transaction'', JStr ''0504'')]))) ''id'' 0 Map.empty
   \<and> take 3 (fst (snd (fetch (sample_lib accepted) configured
      (post_relay (Inr (JObj [(''transaction'', JStr ''0x0504'')]))) ''id'' 0 Map.empty)))
     = [Log Info ''Relay request received'' [(''request_id'', LStr ''id'')],
        CallDeserialize ''0504'', CallRateLimit ''6162'']
   \<and> status (fst (fetch (sample_lib accepted) configured
      (post_relay (Inr (JObj [(''transaction'', JStr ''0x0504'')]))) ''id'' 0 Map.empty)) = 200"
proof -
  let ?b' = "JObj [(''transaction'', JStr ''0x0504'')]"
  let ?b = "JObj [(''transaction'', JStr ''0504'')]"
  let ?req' = "post_relay (Inr ?b')"
  let ?req = "post_relay (Inr ?b)"
  let ?t = "\<lparr>authType = Sponsored, signer = ''ab'', rest = []\<rparr>"
  have h1: "''0504'' \<noteq> []" and h2: "set ''0504'' \<subseteq> set ''0123456789abcdefABCDEF''"
    by simp_all
  have p3: "http_method ?req' = http_method ?req" and p4: "pathname ?req' = pathname ?req"
    and p5: "json_body ?req = Inr ?b" and p7: "json_body ?req' = Inr ?b'"
    by (simp_all add: post_relay_def)
  have p6: "get_transaction ?b = Inr (Some (JStr ''0504''))"
    and p8: "get_transaction ?b' = Inr (Some (JStr (''0x'' @ ''0504'')))"
    by simp_all
  note c = prefix_0x_same_result
             [OF h1 h2 p3 p4 p5 p6 p7 p8, of "sample_lib accepted" configured "''id''" 0
                Map.empty]
  have post: "http_method ?req = ''POST'' \<and> pathname ?req = ''/relay''"
    by (simp add: post_relay_def)
  have d: "deserializeTransaction (sample_lib accepted) ''0504'' = Inr ?t"
    by (simp add: sample_lib_def)
  have a: "authType ?t = Sponsored"
    by simp
  have k: "to_hex (signer ?t) = ''6162''"
    by (simp add: to_hex_def hex_byte_def hex_digit_def)
  from c have 0: "fetch (sample_lib accepted) configured ?req' ''id'' 0 Map.empty
          = fetch (sample_lib accepted) configured ?req ''id'' 0 Map.empty"
    by blast
  from c post d a
  have "take 3 (fst (snd (fetch (sample_lib accepted) configured ?req' ''id'' 0 Map.empty)))
          = [Log Info ''Relay request received'' [(''request_id'', LStr ''id'')],
             CallDeserialize ''0504'', CallRateLimit (to_hex (signer ?t))]"
    by blast
  then have 1: "take 3 (fst (snd (fetch (sample_lib accepted) configured ?req' ''id'' 0
                                    Map.empty)))
          = [Log Info ''Relay request received'' [(''request_id'', LStr ''id'')],
             CallDeserialize ''0504'', CallRateLimit ''6162'']"
    by (simp only: k)
  have 2: "status (fst (fetch (sample_lib accepted) configured ?req' ''id'' 0
                    Map.empty)) = 200"
    by (simp add: run_defs sample_defs)
  from 0 1 2 show ?thesis by blast
qed

section \<open>The order of the stages\<close>

text \<open>
  C3. For every \<^verbatim>\<open>/relay\<close> POST, the stages a run enters are an initial part of
  validate, rate limit, sponsor, broadcast, in that order, and a stage is entered only
  if every earlier one succeeded: the rate limiter is called only for a transaction that
  deserialized and is sponsored, the sponsor function only if the rate limiter admitted
  as well, the broadcast function only if the sponsor call returned as well. In
  particular, whatever the rate-limit map (an exhausted sender included), a transaction
  that does not deserialize or is not sponsored is answered 400
  (\<^verbatim>\<open>Invalid transaction\<close>, \<^verbatim>\<open>Transaction must be sponsored\<close>), the run enters no stage
  after the validation, and the rate-limit map is untouched.
\<close>

theorem pipeline_order:
  assumes "http_method req = ''POST''" and "pathname req = ''/relay''"
    and "fetch lib e req rid now m = (resp, evs, m')"
  shows "prefix (stages evs) [Validate, RateLimit, Sponsor, Broadcast]
   \<and> (RateLimit \<in> set (stages evs) \<longrightarrow>
        (\<exists>b tx t. json_body req = Inr b \<and> get_transaction b = Inr (Some (JStr tx))
           \<and> deserializeTransaction lib (txHex tx) = Inr t \<and> authType t = Sponsored))
   \<and> (Sponsor \<in> set (stages evs) \<longrightarrow>
        (\<exists>b tx t. json_body req = Inr b \<and> get_transaction b = Inr (Some (JStr tx))
           \<and> deserializeTransaction lib (txHex tx) = Inr t \<and> authType t = Sponsored
           \<and> fst (checkRateLimit now (to_hex (signer t)) m)))
   \<and> (Broadcast \<in> set (stages evs) \<longrightarrow>
        (\<exists>b tx t key t'. json_body req = Inr b \<and> get_transaction b = Inr (Some (JStr tx))
           \<and> deserializeTransaction lib (txHex tx) = Inr t \<and> authType t = Sponsored
           \<and> fst (checkRateLimit now (to_hex (signer t)) m)
           \<and> SPONSOR_PRIVATE_KEY e = Some key
           \<and> sponsorTransaction lib t key (getNetwork e) = Inr t'))
   \<and> (\<forall>b tx ex. json_body req = Inr b \<and> get_transaction b = Inr (Some (JStr tx)) \<and> tx \<noteq> []
           \<and> deserializeTransaction lib (txHex tx) = Inl ex
        \<longrightarrow> status resp = 400
            \<and> body resp = JsonBody [(''error'', ''Invalid transaction''),
                  (''details'', ''Could not deserialize transaction hex'')]
            \<and> stages evs = [Validate] \<and> m' = m)
   \<and> (\<forall>b tx t. json_body req = Inr b \<and> get_transaction b = Inr (Some (JStr tx)) \<and> tx \<noteq> []
           \<and> deserializeTransaction lib (txHex tx) = Inr t \<and> authType t \<noteq> Sponsored
        \<longrightarrow> status resp = 400
            \<and> body resp = JsonBody [(''error'', ''Transaction must be sponsored''),
                  (''details'', ''Build transaction with sponsored: true'')]
            \<and> stages evs = [Validate] \<and> m' = m)"
  using assms
  apply (simp add: fetch_relay)
  apply (auto simp: relay_defs stages_append stages_simps json_response_def Let_def
       split: sum.splits option.splits json.splits if_splits prod.splits bool.splits
         broadcast_value.splits)
  done

text \<open>
  A sender whose limit is exhausted: a standard transaction and an undecodable one are
  answered 400, a sponsored one 429. On a fresh map the sponsored one runs through all
  four stages.
\<close>

theorem pipeline_order_witness:
  "\<not> fst (checkRateLimit 0 ''6162'' exhausted)
   \<and> status (fst (fetch (sample_lib accepted) configured
      (post_relay (Inr (JObj [(''transaction'', JStr ''0404'')]))) ''id'' 0 exhausted)) = 400
   \<and> stages (fst (snd (fetch (sample_lib accepted) configured
      (post_relay (Inr (JObj [(''transaction'', JStr ''0404'')]))) ''id'' 0 exhausted)))
      = [Validate]
   \<and> status (fst (fetch (sample_lib accepted) configured
      (post_relay (Inr (JObj [(''transaction'', JStr ''zz'')]))) ''id'' 0 exhausted)) = 400
   \<and> status (fst (fetch (sample_lib accepted) configured
      (post_relay (Inr (JObj [(''transaction'', JStr ''0504'')]))) ''id'' 0 exhausted)) = 429
   \<and> stages (fst (snd (fetch (sample_lib accepted) configured
      (post_relay (Inr (JObj [(''transaction'', JStr ''0504'')]))) ''id'' 0 Map.empty)))
      = [Validate, RateLimit, Sponsor, Broadcast]"
proof -
  let ?req = "\<lambda>h. post_relay (Inr (JObj [(''transaction'', JStr h)]))"
  let ?out = "\<lambda>h. fetch (sample_lib accepted) configured (?req h) ''id'' 0 exhausted"
  have 0: "\<not> fst (checkRateLimit 0 ''6162'' exhausted)"
    by (simp add: checkRateLimit_def exhausted_def RATE_LIMIT_def)
  have 1: "status (fst (?out ''0404'')) = 400 \<and> stages (fst (snd (?out ''0404''))) = [Validate]"
    using pipeline_order
      [of "?req ''0404''" "sample_lib accepted" configured "''id''" 0 exhausted
          "fst (?out ''0404'')" "fst (snd (?out ''0404''))" "snd (snd (?out ''0404''))"]
    by (simp add: post_relay_def sample_lib_def txHex_def startsWith_def)
  have 2: "status (fst (?out ''zz'')) = 400"
    using pipeline_order
      [of "?req ''zz''" "sample_lib accepted" configured "''id''" 0 exhausted
          "fst (?out ''zz'')" "fst (snd (?out ''zz''))" "snd (snd (?out ''zz''))"]
    by (simp add: post_relay_def sample_lib_def txHex_def startsWith_def)
  have 3: "status (fst (?out ''0504'')) = 429"
    by (simp add: run_defs sample_defs)
  have 4: "stages (fst (snd (fetch (sample_lib accepted) configured (?req ''0504'') ''id'' 0
             Map.empty))) = [Validate, RateLimit, Sponsor, Broadcast]"
    by (simp add: run_defs sample_defs stages_simps)
  from 0 1 2 3 4 show ?thesis by simp
qed

section \<open>The body of the request\<close>

text \<open>
  C10. A \<^verbatim>\<open>/relay\<close> POST whose body is not valid JSON (\<^verbatim>\<open>request.json()\<close> throws) is
  answered by the outermost catch: status 500, error \<^verbatim>\<open>Internal server error\<close>, and in
  \<open>details\<close> the message of the error thrown (\<^verbatim>\<open>Unknown error\<close> when what was thrown is
  not an \<^verbatim>\<open>Error\<close>); nothing but the two log events happens, and no stage is entered.
\<close>

theorem invalid_json_internal_error:
  assumes "http_method req = ''POST''" and "pathname req = ''/relay''"
    and "json_body req = Inl ex"
  shows "fetch lib e req rid now m =
     (\<lparr>status = 500,
       headers = (''Content-Type'', ''application/json'') # corsHeaders,
       body = JsonBody
         [(''error'', ''Internal server error''),
          (''details'', case ex of JsError msg \<Rightarrow> msg | JsOther \<Rightarrow> ''Unknown error'')]\<rparr>,
      [Log Info ''Relay request received'' [(''request_id'', LStr rid)],
       Log Error ''Unexpected error''
         [(''request_id'', LStr rid),
          (''error'', LStr (case ex of JsError msg \<Rightarrow> msg | JsOther \<Rightarrow> ''Unknown error''))]],
      m)"
  using assms
  by (cases ex) (simp_all add: fetch_relay relay_def catch_all_def json_response_def)

text \<open>A truncated body: the message of the SyntaxError is the \<open>details\<close>.\<close>

theorem invalid_json_internal_error_witness:
  "status (fst (fetch (sample_lib accepted) configured
      (post_relay (Inl (JsError ''Unexpected end of JSON input''))) ''id'' 0 Map.empty)) = 500
   \<and> body (fst (fetch (sample_lib accepted) configured
      (post_relay (Inl (JsError ''Unexpected end of JSON input''))) ''id'' 0 Map.empty))
     = JsonBody [(''error'', ''Internal server error''),
                 (''details'', ''Unexpected end of JSON input'')]"
  using invalid_json_internal_error
    [of "post_relay (Inl (JsError ''Unexpected end of JSON input''))"
        "JsError ''Unexpected end of JSON input''" "sample_lib accepted" configured "''id''" 0
        Map.empty]
  by (simp add: post_relay_def)

text \<open>
  C9. A \<^verbatim>\<open>/relay\<close> POST whose \<^verbatim>\<open>transaction\<close> is the empty string is answered 400
  \<^verbatim>\<open>Missing transaction field\<close>; the deserializer is not called.
\<close>

theorem empty_transaction_missing_field:
  assumes "http_method req = ''POST''" and "pathname req = ''/relay''"
    and "json_body req = Inr b" and "get_transaction b = Inr (Some (JStr []))"
  shows "fetch lib e req rid now m =
     (\<lparr>status = 400,
       headers = (''Content-Type'', ''application/json'') # corsHeaders,
       body = JsonBody [(''error'', ''Missing transaction field'')]\<rparr>,
      [Log Info ''Relay request received'' [(''request_id'', LStr rid)]],
      m)"
  using assms by (simp add: fetch_relay relay_def json_response_def)

text \<open>The body \<^verbatim>\<open>{"transaction": ""}\<close>.\<close>

theorem empty_transaction_missing_field_witness:
  "fetch (sample_lib accepted) configured
      (post_relay (Inr (JObj [(''transaction'', JStr [])]))) ''id'' 0 Map.empty =
     (\<lparr>status = 400,
       headers = (''Content-Type'', ''application/json'') # corsHeaders,
       body = JsonBody [(''error'', ''Missing transaction field'')]\<rparr>,
      [Log Info ''Relay request received'' [(''request_id'', LStr ''id'')]],
      Map.empty)"
  using empty_transaction_missing_field
    [of "post_relay (Inr (JObj [(''transaction'', JStr [])]))"
        "JObj [(''transaction'', JStr [])]" "sample_lib accepted" configured "''id''" 0 Map.empty]
  by (simp add: post_relay_def)

end
